theory Spec2Isabelle
  imports Complex_Main "HOL-Library.Word" "HOL-Library.Multiset"
begin

section \<open>Ground-truth builders for COCO detection, instance and panoptic annotations\<close>

text \<open>
  A shallow embedding of \<^verbatim>\<open>detection/build_detection_gt.py\<close>,
  \<^verbatim>\<open>segmentation/build_instance_gt.py\<close> and \<^verbatim>\<open>panoptic/build_panoptic_gt.py\<close>.
  Python integers are \<open>int\<close>, dictionaries are maps, exceptions are the left summand of
  a result type, and every \<^verbatim>\<open>for\<close> loop is a recursion over the list it walks, with
  the list it appends to as an accumulator.
\<close>

subsection \<open>Exceptions and dictionaries\<close>

datatype py_error =
    KeyError int              \<comment> \<open>a dictionary subscript with a key that is absent\<close>
  | ValueError                \<comment> \<open>\<^verbatim>\<open>np.zeros\<close> with a negative dimension\<close>
  | FileNotFoundError string  \<comment> \<open>raised by the panoptic assembler, with the file name\<close>

text \<open>\<^verbatim>\<open>d[k]\<close>: the value, or \<^verbatim>\<open>KeyError(k)\<close>.\<close>

definition dict_get :: "(int \<rightharpoonup> 'v) \<Rightarrow> int \<Rightarrow> py_error + 'v" where
  "dict_get d k = (case d k of None \<Rightarrow> Inl (KeyError k) | Some v \<Rightarrow> Inr v)"

text \<open>
  A dictionary comprehension \<^verbatim>\<open>{k: v for ...}\<close> stores the pairs in iteration order;
  a later pair overwrites an earlier one with the same key.
\<close>

definition dict_of :: "('k \<times> 'v) list \<Rightarrow> ('k \<rightharpoonup> 'v)" where
  "dict_of kvs = fold (\<lambda>(k, v) d. d(k \<mapsto> v)) kvs Map.empty"

subsection \<open>Category mapping\<close>

record category =
  cat_id :: int
  cat_name :: string

text \<open>
  The three files hold the same function. In the detection and instance files the list
  comes from \<^verbatim>\<open>coco.loadCats(coco.getCatIds())\<close>, in the panoptic file from
  \<^verbatim>\<open>panoptic_data["categories"]\<close>; the model takes that list. Python's \<^verbatim>\<open>sorted\<close>
  is stable, as \<^const>\<open>sort_key\<close> is, and \<^verbatim>\<open>enumerate\<close> counts from 0.
\<close>

definition build_category_id_mapping :: "category list \<Rightarrow> (int \<rightharpoonup> int)" where
  "build_category_id_mapping cats =
     (let cats_sorted = sort_key cat_id cats
      in dict_of (map (\<lambda>(idx, cat). (cat_id cat, int idx)) (enumerate 0 cats_sorted)))"

subsection \<open>Arrays\<close>

text \<open>
  A two-dimensional numpy array: its \<^verbatim>\<open>shape\<close> and its rows. An array with three
  channels per pixel is an array of triples.
\<close>

datatype 'a ndarray = NDArray (shape: "nat \<times> nat") (rows: "'a list list")

type_synonym mask = "8 word ndarray"
type_synonym rgb_image = "(8 word \<times> 8 word \<times> 8 word) ndarray"





definition array_map :: "('a \<Rightarrow> 'b) \<Rightarrow> 'a ndarray \<Rightarrow> 'b ndarray" where
  "array_map f a = NDArray (shape a) (map (map f) (rows a))"

definition array_map2 :: "('a \<Rightarrow> 'b \<Rightarrow> 'c) \<Rightarrow> 'a ndarray \<Rightarrow> 'b ndarray \<Rightarrow> 'c ndarray" where
  "array_map2 f a b = NDArray (shape a) (map2 (map2 f) (rows a) (rows b))"

text \<open>The number of pixels of a mask that are 1, and the element at a row and column.\<close>

definition pixel_count :: "mask \<Rightarrow> nat" where
  "pixel_count m = length (filter (\<lambda>v. v = 1) (concat (rows m)))"

definition pixel :: "'a ndarray \<Rightarrow> nat \<Rightarrow> nat \<Rightarrow> 'a" where
  "pixel a i j = rows a ! i ! j"

subsection \<open>Detection: a bounding box as a mask\<close>

text \<open>
  A coordinate of a box is a finite Python number, a float or an int of the JSON file: the
  rational it denotes. \<^verbatim>\<open>round\<close> of a number is the nearest integer, and the even one
  of the two when the number is half-way.
\<close>

text \<open>A box is the list \<^verbatim>\<open>[x, y, w, h]\<close> that \<^verbatim>\<open>x, y, w, h = bbox\<close> unpacks.\<close>

type_synonym bbox = "rat \<times> rat \<times> rat \<times> rat"



subsection \<open>The annotation container\<close>

record image_info =
  img_id :: int
  img_width :: int
  img_height :: int

record annotation =
  ann_id :: int
  ann_category_id :: int
  ann_bbox :: bbox

text \<open>
  The \<^verbatim>\<open>COCO\<close> object of pycocotools, as far as the assemblers use it:
  \<^verbatim>\<open>loadImgs([image_id])[0]\<close> is a lookup in \<open>imgs\<close> that raises \<^verbatim>\<open>KeyError\<close>,
  \<open>image_anns image_id\<close> is \<^verbatim>\<open>loadAnns(getAnnIds(imgIds=[image_id], iscrowd=None))\<close>, and
  \<open>annToMask\<close> is the decoder of polygons and run-length encodings.
\<close>

record coco =
  imgs :: "int \<rightharpoonup> image_info"
  image_anns :: "int \<Rightarrow> annotation list"
  annToMask :: "annotation \<Rightarrow> mask"

text \<open>
  The dictionaries the assemblers return. The key \<^verbatim>\<open>"mask"\<close> is the field \<open>mask_of\<close>; the
  instance and panoptic records have the key \<^verbatim>\<open>"instance_id"\<close> in addition.
\<close>

record detection_record =
  class_id :: int
  mask_of :: mask

record instance_record = detection_record +
  instance_id :: int

subsection \<open>Detection assembler\<close>



subsection \<open>Instance assembler\<close>

fun instance_loop ::
  "coco \<Rightarrow> (int \<rightharpoonup> int) \<Rightarrow> int \<Rightarrow> int \<Rightarrow> annotation list
     \<Rightarrow> instance_record list \<Rightarrow> py_error + instance_record list" where
  "instance_loop coco catid_to_classid height width [] instances = Inr instances"
| "instance_loop coco catid_to_classid height width (ann # anns) instances =
     (case dict_get catid_to_classid (ann_category_id ann) of
        Inl e \<Rightarrow> Inl e
      | Inr cid \<Rightarrow>
          (let m = annToMask coco ann
           in if int (fst (shape m)) \<noteq> height \<or> int (snd (shape m)) \<noteq> width
              then instance_loop coco catid_to_classid height width anns instances
              else instance_loop coco catid_to_classid height width anns
                     (instances @ [\<lparr>class_id = cid, mask_of = m, instance_id = ann_id ann\<rparr>])))"

definition get_instance_gt_for_image ::
  "coco \<Rightarrow> int \<Rightarrow> (int \<rightharpoonup> int) \<Rightarrow> py_error + instance_record list" where
  "get_instance_gt_for_image coco image_id catid_to_classid =
     (case dict_get (imgs coco) image_id of
        Inl e \<Rightarrow> Inl e
      | Inr img_info \<Rightarrow>
          instance_loop coco catid_to_classid (img_height img_info) (img_width img_info)
            (image_anns coco image_id) [])"

subsection \<open>Panoptic assembler\<close>

record segment_info =
  seg_id :: int
  seg_category_id :: int

record panoptic_annotation =
  pan_image_id :: int
  file_name :: string
  segments_info :: "segment_info list"

record panoptic_data =
  categories :: "category list"
  images :: "image_info list"
  annotations :: "panoptic_annotation list"

text \<open>
  \<^verbatim>\<open>color.astype(np.int64)\<close> widens every channel; the sum and the products are those of
  64-bit integers, which wrap around. The result is read as a signed number.
\<close>

definition rgb_to_id :: "rgb_image \<Rightarrow> 64 word ndarray" where
  "rgb_to_id color =
     (let color = array_map (\<lambda>(r, g, b). (ucast r :: 64 word, ucast g :: 64 word, ucast b :: 64 word)) color
      in array_map2 (+)
           (array_map2 (+) (array_map (\<lambda>(r, g, b). r) color)
                           (array_map (\<lambda>(r, g, b). 256 * g) color))
           (array_map (\<lambda>(r, g, b). 256 ^ 2 * b) color))"

definition index_panoptic_structures ::
  "panoptic_data \<Rightarrow> (int \<rightharpoonup> image_info) \<times> (int \<rightharpoonup> panoptic_annotation)" where
  "index_panoptic_structures panoptic_data =
     (let img_id_to_img = dict_of (map (\<lambda>img. (img_id img, img)) (images panoptic_data));
          img_id_to_ann = dict_of (map (\<lambda>ann. (pan_image_id ann, ann)) (annotations panoptic_data))
      in (img_id_to_img, img_id_to_ann))"

text \<open>\<^verbatim>\<open>os.path.join\<close> of two components, as \<^verbatim>\<open>posixpath\<close> defines it.\<close>

definition os_path_join :: "string \<Rightarrow> string \<Rightarrow> string" where
  "os_path_join a b =
     (if b \<noteq> [] \<and> hd b = CHR ''/'' then b
      else if a = [] \<or> last a = CHR ''/'' then a @ b
      else a @ ''/'' @ b)"

text \<open>\<^verbatim>\<open>(seg_id_map == seg_id).astype(np.uint8)\<close>\<close>

definition segment_mask :: "64 word ndarray \<Rightarrow> int \<Rightarrow> mask" where
  "segment_mask seg_id_map sid = array_map (\<lambda>v. if sint v = sid then 1 else 0) seg_id_map"

fun panoptic_loop ::
  "(int \<rightharpoonup> int) \<Rightarrow> 64 word ndarray \<Rightarrow> segment_info list
     \<Rightarrow> instance_record list \<Rightarrow> py_error + instance_record list" where
  "panoptic_loop catid_to_classid seg_id_map [] panoptic_instances = Inr panoptic_instances"
| "panoptic_loop catid_to_classid seg_id_map (seg # segs) panoptic_instances =
     (case dict_get catid_to_classid (seg_category_id seg) of
        Inl e \<Rightarrow> Inl e
      | Inr cid \<Rightarrow>
          panoptic_loop catid_to_classid seg_id_map segs
            (panoptic_instances @
               [\<lparr>class_id = cid, mask_of = segment_mask seg_id_map (seg_id seg),
                 instance_id = seg_id seg\<rparr>]))"

text \<open>
  The directory of PNG files is a map \<open>files\<close> from a path to the decoded RGB array:
  \<^verbatim>\<open>os.path.exists\<close> is definedness, \<^verbatim>\<open>np.array(Image.open(path))\<close> is the value.
\<close>

definition get_panoptic_gt_for_image ::
  "(string \<rightharpoonup> rgb_image) \<Rightarrow> int \<Rightarrow> (int \<rightharpoonup> image_info) \<Rightarrow> (int \<rightharpoonup> panoptic_annotation)
     \<Rightarrow> (int \<rightharpoonup> int) \<Rightarrow> string \<Rightarrow> py_error + (instance_record list \<times> (nat \<times> nat))" where
  "get_panoptic_gt_for_image files image_id img_id_to_img img_id_to_ann catid_to_classid
       panoptic_masks_dir =
     (case dict_get img_id_to_img image_id of
        Inl e \<Rightarrow> Inl e
      | Inr img_info \<Rightarrow>
          (case dict_get img_id_to_ann image_id of
             Inl e \<Rightarrow> Inl e
           | Inr ann \<Rightarrow>
               let mask_path = os_path_join panoptic_masks_dir (file_name ann)
               in (case files mask_path of
                     None \<Rightarrow> Inl (FileNotFoundError mask_path)
                   | Some panoptic_rgb \<Rightarrow>
                       let seg_id_map = rgb_to_id panoptic_rgb
                       in (case panoptic_loop catid_to_classid seg_id_map (segments_info ann) [] of
                             Inl e \<Rightarrow> Inl e
                           | Inr panoptic_instances \<Rightarrow>
                               Inr (panoptic_instances, shape seg_id_map)))))"

subsection \<open>Predicates on the output and a small data set\<close>


text \<open>
  Image 42 of 4 by 4 pixels with two panoptic segments: 1000 of category 5 on the two upper
  rows, stored as the colour \<open>(232, 3, 0)\<close>, and 2000 of category 18 on the two lower rows,
  stored as \<open>(208, 7, 0)\<close>.
\<close>

definition example_panoptic_data :: panoptic_data where
  "example_panoptic_data =
     \<lparr>categories = [\<lparr>cat_id = 5, cat_name = ''airplane''\<rparr>, \<lparr>cat_id = 18, cat_name = ''dog''\<rparr>],
      images = [\<lparr>img_id = 42, img_width = 4, img_height = 4\<rparr>],
      annotations =
        [\<lparr>pan_image_id = 42, file_name = ''000000000042.png'',
          segments_info = [\<lparr>seg_id = 1000, seg_category_id = 5\<rparr>,
                           \<lparr>seg_id = 2000, seg_category_id = 18\<rparr>]\<rparr>]\<rparr>"

definition example_png :: rgb_image where
  "example_png =
     NDArray (4, 4)
       [[(232, 3, 0), (232, 3, 0), (232, 3, 0), (232, 3, 0)],
        [(232, 3, 0), (232, 3, 0), (232, 3, 0), (232, 3, 0)],
        [(208, 7, 0), (208, 7, 0), (208, 7, 0), (208, 7, 0)],
        [(208, 7, 0), (208, 7, 0), (208, 7, 0), (208, 7, 0)]]"

definition example_files :: "string \<rightharpoonup> rgb_image" where
  "example_files = [''panoptic_val2017/000000000042.png'' \<mapsto> example_png]"

text \<open>
  Image 1 of height 1 and width 2 with two annotations of category 3: the decoder gives a
  1 by 2 mask for the first and a 2 by 2 mask, which does not fit the image, for the second.
\<close>

definition example_coco :: coco where
  "example_coco =
     \<lparr>imgs = [1 \<mapsto> \<lparr>img_id = 1, img_width = 2, img_height = 1\<rparr>],
      image_anns = (\<lambda>i. if i = 1
                         then [\<lparr>ann_id = 10, ann_category_id = 3, ann_bbox = (0, 0, 1, 1)\<rparr>,
                               \<lparr>ann_id = 11, ann_category_id = 3, ann_bbox = (1, 0, 1, 1)\<rparr>]
                         else []),
      annToMask = (\<lambda>a. if ann_id a = 10 then NDArray (1, 2) [[1, 0]]
                        else NDArray (2, 2) [[1, 0], [0, 1]])\<rparr>"

definition example_categories :: "category list" where
  "example_categories = [\<lparr>cat_id = 3, cat_name = ''car''\<rparr>, \<lparr>cat_id = 1, cat_name = ''person''\<rparr>]"

section \<open>Properties\<close>

subsection \<open>Dictionaries built by comprehension\<close>

lemma fold_upd_map_of:
  "fold (\<lambda>(k, v) d. d(k \<mapsto> v)) kvs m = m ++ map_of (rev kvs)"
  by (induction kvs arbitrary: m) (auto simp: map_add_def fun_eq_iff split: option.splits)

lemma dict_of_map_of: "dict_of kvs = map_of (rev kvs)"
  by (simp add: dict_of_def fold_upd_map_of)

lemma map_of_rev_distinct:
  "distinct (map fst kvs) \<Longrightarrow> map_of (rev kvs) = map_of kvs"
  by (rule map_of_inject_set[THEN iffD2]) (simp_all add: rev_map[symmetric])

lemma dict_of_distinct: "distinct (map fst kvs) \<Longrightarrow> dict_of kvs = map_of kvs"
  by (simp add: dict_of_map_of map_of_rev_distinct)

lemma enumerate_pairs:
  "map (\<lambda>(idx, cat). (cat_id cat, int idx)) (enumerate 0 xs)
     = zip (map cat_id xs) (map int [0..<length xs])"
  by (simp add: enumerate_eq_zip zip_map1 zip_map2 map_zip_map map_zip_map2 zip_commute[of xs] split_def)

lemma build_category_id_mapping_zip:
  "build_category_id_mapping cats =
     dict_of (zip (map cat_id (sort_key cat_id cats)) (map int [0..<length cats]))"
  by (simp add: build_category_id_mapping_def enumerate_pairs)

lemma build_category_id_mapping_map_of:
  assumes "distinct (map cat_id cats)"
  shows "build_category_id_mapping cats =
     map_of (zip (map cat_id (sort_key cat_id cats)) (map int [0..<length cats]))"
proof -
  have "distinct (map cat_id (sort_key cat_id cats))"
    using assms by (simp add: distinct_map)
  then show ?thesis
    by (simp add: build_category_id_mapping_zip dict_of_distinct)
qed

lemma sort_key_perm_unique:
  assumes d: "distinct (map f xs)" and p: "mset ys = mset xs"
  shows "sort_key f ys = sort_key f xs"
proof -
  have s: "set ys = set xs" using p by (rule mset_eq_setD)
  have "mset (map f ys) = mset (map f xs)" using p by simp
  from mset_eq_imp_distinct_iff[OF this] have dy: "distinct (map f ys)" using d by simp
  have "map f (sort_key f ys) = map f (sort_key f xs)"
    by (rule sorted_distinct_set_unique) (use d dy s in \<open>simp_all add: distinct_map\<close>)
  moreover have "inj_on f (set (sort_key f ys) \<union> set (sort_key f xs))"
    using d s by (simp add: distinct_map)
  ultimately show ?thesis by (simp add: inj_on_map_eq_map)
qed

lemma build_category_id_mapping_nth:
  assumes "distinct (map cat_id cats)" and "i < length cats"
  shows "build_category_id_mapping cats (cat_id (sort_key cat_id cats ! i)) = Some (int i)"
proof -
  let ?ks = "map cat_id (sort_key cat_id cats)"
  have "distinct ?ks" using assms(1) by (simp add: distinct_map)
  then have "map_of (zip ?ks (map int [0..<length cats])) (?ks ! i) = Some (map int [0..<length cats] ! i)"
    using assms(2) by (intro map_of_zip_nth) simp_all
  then show ?thesis
    using assms by (simp add: build_category_id_mapping_map_of)
qed

lemma build_category_id_mapping_dom:
  "dom (build_category_id_mapping cats) = cat_id ` set cats"
  by (simp add: build_category_id_mapping_zip dict_of_map_of zip_rev[symmetric] rev_map[symmetric])

lemma build_category_id_mapping_ran:
  assumes "distinct (map cat_id cats)"
  shows "ran (build_category_id_mapping cats) = {0..<int (length cats)}"
proof -
  have "distinct (map cat_id (sort_key cat_id cats))" using assms by (simp add: distinct_map)
  then have "ran (build_category_id_mapping cats) = set (map int [0..<length cats])"
    using assms by (simp add: build_category_id_mapping_map_of ran_map_of_zip)
  also have "\<dots> = {0..<int (length cats)}"
  proof (rule set_eqI)
    fix v :: int
    show "v \<in> set (map int [0..<length cats]) \<longleftrightarrow> v \<in> {0..<int (length cats)}"
    proof
      assume "v \<in> set (map int [0..<length cats])"
      then show "v \<in> {0..<int (length cats)}" by auto
    next
      assume "v \<in> {0..<int (length cats)}"
      then have "nat v < length cats" "int (nat v) = v" by auto
      then show "v \<in> set (map int [0..<length cats])" by (auto simp: image_iff intro!: bexI[of _ "nat v"])
    qed
  qed
  finally show ?thesis .
qed

lemma build_category_id_mapping_inj:
  assumes "distinct (map cat_id cats)"
  shows "inj_on (\<lambda>k. the (build_category_id_mapping cats k)) (cat_id ` set cats)"
proof (rule inj_onI)
  fix a b assume a: "a \<in> cat_id ` set cats" and b: "b \<in> cat_id ` set cats"
    and e: "the (build_category_id_mapping cats a) = the (build_category_id_mapping cats b)"
  let ?S = "sort_key cat_id cats"
  have idx: "\<exists>i. i < length cats \<and> k = cat_id (?S ! i)" if "k \<in> cat_id ` set cats" for k
  proof -
    from that obtain c where "c \<in> set ?S" "k = cat_id c" by auto
    then obtain i where "i < length ?S" "?S ! i = c" unfolding in_set_conv_nth by blast
    with \<open>k = cat_id c\<close> show ?thesis by auto
  qed
  from idx[OF a] obtain i where i: "i < length cats" "a = cat_id (?S ! i)" by blast
  from idx[OF b] obtain j where j: "j < length cats" "b = cat_id (?S ! j)" by blast
  from e i j assms have "i = j" by (simp add: build_category_id_mapping_nth)
  with i j show "a = b" by simp
qed

text \<open>
  C1: for a category list with unique ids, the class index of a category is its position in
  the list sorted by ascending id, counted from 0 (the sorted ids are strictly increasing);
  the mapping from ids to class indices is a bijection from the ids onto
  \<open>{0, ..., len(C) - 1}\<close>; and rebuilding the mapping from the same categories, in any
  order of the list, gives the same mapping.
\<close>

theorem build_category_id_mapping_bijection:
  assumes "distinct (map cat_id C)"
  shows "sorted_wrt (<) (map cat_id (sort_key cat_id C))
       \<and> (\<forall>i < length C.
             build_category_id_mapping C (cat_id (sort_key cat_id C ! i)) = Some (int i))
       \<and> dom (build_category_id_mapping C) = cat_id ` set C
       \<and> bij_betw (\<lambda>k. the (build_category_id_mapping C k)) (cat_id ` set C)
            {0..<int (length C)}
       \<and> (\<forall>C'. mset C' = mset C \<longrightarrow>
             build_category_id_mapping C' = build_category_id_mapping C)"
proof (intro conjI allI impI)
  have "sorted (map cat_id (sort_key cat_id C))" by simp
  moreover have "distinct (map cat_id (sort_key cat_id C))"
    using assms by (simp add: distinct_map)
  ultimately show "sorted_wrt (<) (map cat_id (sort_key cat_id C))"
    by (simp add: strict_sorted_iff)
next
  fix i assume "i < length C"
  with assms show "build_category_id_mapping C (cat_id (sort_key cat_id C ! i)) = Some (int i)"
    by (rule build_category_id_mapping_nth)
next
  show "dom (build_category_id_mapping C) = cat_id ` set C"
    by (rule build_category_id_mapping_dom)
next
  let ?m = "build_category_id_mapping C"
  have "(\<lambda>k. the (?m k)) ` dom ?m = ran ?m"
    by (auto simp: ran_def dom_def image_iff) force
  then have "(\<lambda>k. the (?m k)) ` (cat_id ` set C) = {0..<int (length C)}"
    using assms by (simp add: build_category_id_mapping_dom build_category_id_mapping_ran)
  with build_category_id_mapping_inj[OF assms]
  show "bij_betw (\<lambda>k. the (?m k)) (cat_id ` set C) {0..<int (length C)}"
    by (simp add: bij_betw_def)
next
  fix C' assume p: "mset C' = mset C"
  then have "length C' = length C" by (rule mset_eq_length)
  moreover have "sort_key cat_id C' = sort_key cat_id C"
    using assms p by (rule sort_key_perm_unique)
  ultimately show "build_category_id_mapping C' = build_category_id_mapping C"
    by (simp add: build_category_id_mapping_zip)
qed

theorem build_category_id_mapping_bijection_witness:
  "distinct (map cat_id [\<lparr>cat_id = 18, cat_name = ''dog''\<rparr>, \<lparr>cat_id = 5, cat_name = ''airplane''\<rparr>,
                         \<lparr>cat_id = 7, cat_name = ''train''\<rparr>])
   \<and> build_category_id_mapping
        [\<lparr>cat_id = 18, cat_name = ''dog''\<rparr>, \<lparr>cat_id = 5, cat_name = ''airplane''\<rparr>,
         \<lparr>cat_id = 7, cat_name = ''train''\<rparr>] 18 = Some 2
   \<and> build_category_id_mapping
        [\<lparr>cat_id = 5, cat_name = ''airplane''\<rparr>, \<lparr>cat_id = 7, cat_name = ''train''\<rparr>,
         \<lparr>cat_id = 18, cat_name = ''dog''\<rparr>]
     = build_category_id_mapping
        [\<lparr>cat_id = 18, cat_name = ''dog''\<rparr>, \<lparr>cat_id = 5, cat_name = ''airplane''\<rparr>,
         \<lparr>cat_id = 7, cat_name = ''train''\<rparr>]"
proof -
  let ?C = "[\<lparr>cat_id = 18, cat_name = ''dog''\<rparr>, \<lparr>cat_id = 5, cat_name = ''airplane''\<rparr>,
             \<lparr>cat_id = 7, cat_name = ''train''\<rparr>]"
  let ?C' = "[\<lparr>cat_id = 5, cat_name = ''airplane''\<rparr>, \<lparr>cat_id = 7, cat_name = ''train''\<rparr>,
              \<lparr>cat_id = 18, cat_name = ''dog''\<rparr>]"
  have d: "distinct (map cat_id ?C)" by simp
  note T = build_category_id_mapping_bijection[OF d]
  from T have A: "\<forall>i < length ?C.
      build_category_id_mapping ?C (cat_id (sort_key cat_id ?C ! i)) = Some (int i)"
    by blast
  have a: "build_category_id_mapping ?C 18 = Some 2"
    using A[rule_format, of 2] by simp
  from T have "\<forall>C'. mset C' = mset ?C \<longrightarrow>
      build_category_id_mapping C' = build_category_id_mapping ?C"
    by blast
  moreover have "mset ?C' = mset ?C" by (simp add: add.commute)
  ultimately have b: "build_category_id_mapping ?C' = build_category_id_mapping ?C" by blast
  from d a b show ?thesis by blast
qed

subsection \<open>Decoding panoptic colours\<close>

lemma map2_map_map_same:
  "map2 (map2 f) (map (map g) rs) (map (map h) rs) = map (map (\<lambda>p. f (g p) (h p))) rs"
  by (induction rs) (simp_all add: map2_map_map)

lemma array_map2_array_map:
  "array_map2 f (array_map g a) (array_map h a) = array_map (\<lambda>p. f (g p) (h p)) a"
  by (simp add: array_map2_def array_map_def map2_map_map_same)

lemma array_map_comp: "array_map f (array_map g a) = array_map (\<lambda>p. f (g p)) a"
  by (simp add: array_map_def comp_def)

lemma rgb_word_eq:
  fixes r g b :: "8 word"
  shows "(ucast r :: 64 word) + 256 * ucast g + 256 ^ 2 * ucast b
       = word_of_int (uint r + 256 * uint g + 256 ^ 2 * uint b)"
proof -
  have "(word_of_int (uint r + 256 * uint g + 256 ^ 2 * uint b) :: 64 word)
      = word_of_int (uint r) + 256 * word_of_int (uint g) + 256 ^ 2 * word_of_int (uint b)"
    by (simp only: of_int_add of_int_mult of_int_numeral of_int_power)
  then show ?thesis by (simp only: ucast_eq)
qed

lemma rgb_int_bounds:
  fixes r g b :: "8 word"
  shows "0 \<le> uint r + 256 * uint g + 256 ^ 2 * uint b"
    and "uint r + 256 * uint g + 256 ^ 2 * uint b \<le> 256 ^ 3 - 1"
proof -
  have "uint r < 256" "uint g < 256" "uint b < 256"
    using uint_lt2p[of r] uint_lt2p[of g] uint_lt2p[of b] by simp_all
  then show "uint r + 256 * uint g + 256 ^ 2 * uint b \<le> 256 ^ 3 - 1" by simp
  show "0 \<le> uint r + 256 * uint g + 256 ^ 2 * uint b" by simp
qed

lemma sint_rgb:
  fixes r g b :: "8 word"
  shows "sint (word_of_int (uint r + 256 * uint g + 256 ^ 2 * uint b) :: 64 word)
       = uint r + 256 * uint g + 256 ^ 2 * uint b"
proof -
  define k where "k = uint r + 256 * uint g + 256 ^ 2 * uint b"
  have "0 \<le> k" "k \<le> 256 ^ 3 - 1" unfolding k_def by (rule rgb_int_bounds)+
  then have "- (2 ^ (LENGTH(64) - 1)) \<le> k" "k < 2 ^ (LENGTH(64) - 1)" by simp_all
  then have "signed_take_bit (LENGTH(64) - 1) k = k"
    by (rule signed_take_bit_int_eq_self)
  then have "sint (word_of_int k :: 64 word) = k"
    by (simp only: sint_sbintrunc')
  then show ?thesis unfolding k_def .
qed
lemma rgb_to_id_array_map:
  "rgb_to_id color =
     array_map (\<lambda>(r, g, b). word_of_int (uint r + 256 * uint g + 256 ^ 2 * uint b)) color"
proof -
  have "rgb_to_id color = array_map (\<lambda>(r, g, b). (ucast r :: 64 word) + 256 * ucast g + 256 ^ 2 * ucast b) color"
    unfolding rgb_to_id_def Let_def array_map2_array_map array_map_comp
    by (simp only: split_def fst_conv snd_conv)
  then show ?thesis by (simp only: rgb_word_eq)
qed

lemma pixel_array_map:
  "i < length (rows a) \<Longrightarrow> j < length (rows a ! i) \<Longrightarrow>
     pixel (array_map f a) i j = f (pixel a i j)"
  by (simp add: pixel_def array_map_def)

text \<open>
  C2: on an image whose channels are bytes, \<open>rgb_to_id\<close> computes at every pixel exactly
  \<open>R + 256 * G + 256\<^sup>2 * B\<close>: the 64-bit arithmetic does not wrap, the signed value of the
  result is that number, which lies between 0 and \<open>256\<^sup>3 - 1\<close>, and the result on the whole
  image is the array of the scalar formula applied to each pixel, of the same shape.
\<close>

theorem rgb_to_id_formula:
  "rgb_to_id color =
     array_map (\<lambda>(r, g, b). word_of_int (uint r + 256 * uint g + 256 ^ 2 * uint b)) color
   \<and> shape (rgb_to_id color) = shape color
   \<and> (\<forall>i j. i < length (rows color) \<and> j < length (rows color ! i) \<longrightarrow>
         (case pixel color i j of (r, g, b) \<Rightarrow>
            sint (pixel (rgb_to_id color) i j) = uint r + 256 * uint g + 256 ^ 2 * uint b
          \<and> 0 \<le> sint (pixel (rgb_to_id color) i j)
          \<and> sint (pixel (rgb_to_id color) i j) \<le> 256 ^ 3 - 1))"
proof (intro conjI allI impI)
  show "rgb_to_id color =
     array_map (\<lambda>(r, g, b). word_of_int (uint r + 256 * uint g + 256 ^ 2 * uint b)) color"
    by (rule rgb_to_id_array_map)
  show "shape (rgb_to_id color) = shape color"
    by (simp add: rgb_to_id_array_map array_map_def)
next
  fix i j assume ij: "i < length (rows color) \<and> j < length (rows color ! i)"
  obtain r g b where p: "pixel color i j = (r, g, b)" by (cases "pixel color i j") auto
  have "pixel (rgb_to_id color) i j = word_of_int (uint r + 256 * uint g + 256 ^ 2 * uint b)"
    using ij p by (simp add: rgb_to_id_array_map pixel_array_map)
  then have "sint (pixel (rgb_to_id color) i j) = uint r + 256 * uint g + 256 ^ 2 * uint b"
    by (simp only: sint_rgb)
  with rgb_int_bounds[of r g b] p
  show "case pixel color i j of (r, g, b) \<Rightarrow>
            sint (pixel (rgb_to_id color) i j) = uint r + 256 * uint g + 256 ^ 2 * uint b
          \<and> 0 \<le> sint (pixel (rgb_to_id color) i j)
          \<and> sint (pixel (rgb_to_id color) i j) \<le> 256 ^ 3 - 1"
    by simp
qed

theorem rgb_to_id_formula_witness:
  "sint (pixel (rgb_to_id (NDArray (1, 2) [[(255, 255, 255), (232, 3, 0)]])) 0 0) = 16777215
   \<and> sint (pixel (rgb_to_id (NDArray (1, 2) [[(255, 255, 255), (232, 3, 0)]])) 0 1) = 1000"
proof -
  let ?c = "NDArray (1, 2) [[(255, 255, 255), (232, 3, 0)]] :: rgb_image"
  from rgb_to_id_formula[of ?c]
  have A: "\<forall>i j. i < length (rows ?c) \<and> j < length (rows ?c ! i) \<longrightarrow>
         (case pixel ?c i j of (r, g, b) \<Rightarrow>
            sint (pixel (rgb_to_id ?c) i j) = uint r + 256 * uint g + 256 ^ 2 * uint b
          \<and> 0 \<le> sint (pixel (rgb_to_id ?c) i j)
          \<and> sint (pixel (rgb_to_id ?c) i j) \<le> 256 ^ 3 - 1)"
    by (rule conjunct2[THEN conjunct2])
  have h0: "0 < length (rows ?c) \<and> 0 < length (rows ?c ! 0)" by simp
  have h1: "0 < length (rows ?c) \<and> 1 < length (rows ?c ! 0)" by simp
  have p0: "pixel ?c 0 0 = (255, 255, 255)" by (simp add: pixel_def)
  have p1: "pixel ?c 0 1 = (232, 3, 0)" by (simp add: pixel_def)
  have u: "uint (255 :: 8 word) = 255" "uint (232 :: 8 word) = 232" "uint (3 :: 8 word) = 3"
    "uint (0 :: 8 word) = 0" by simp_all
  from A[rule_format, OF h0]
  have "sint (pixel (rgb_to_id ?c) 0 0) = uint (255 :: 8 word) + 256 * uint (255 :: 8 word) + 256 ^ 2 * uint (255 :: 8 word)"
    unfolding p0 prod.case by (rule conjunct1)
  then have a: "sint (pixel (rgb_to_id ?c) 0 0) = 16777215" unfolding u by simp
  from A[rule_format, OF h1]
  have "sint (pixel (rgb_to_id ?c) 0 1) = uint (232 :: 8 word) + 256 * uint (3 :: 8 word) + 256 ^ 2 * uint (0 :: 8 word)"
    unfolding p1 prod.case by (rule conjunct1)
  then have b: "sint (pixel (rgb_to_id ?c) 0 1) = 1000" unfolding u by simp
  from a b show ?thesis by (rule conjI)
qed

subsection \<open>Rounding\<close>











subsection \<open>Filling a rectangle of a zero array\<close>












subsection \<open>The rasterised bounding box\<close>







subsection \<open>The pixel count of a box inside the image\<close>





subsection \<open>The loops of the three assemblers\<close>





lemma instance_loop_mapped:
  "\<forall>a \<in> set anns. m (ann_category_id a) \<noteq> None \<Longrightarrow>
     instance_loop c m height width anns acc =
       Inr (acc @ map (\<lambda>a. \<lparr>class_id = the (m (ann_category_id a)), mask_of = annToMask c a,
                             instance_id = ann_id a\<rparr>)
                    (filter (\<lambda>a. int (fst (shape (annToMask c a))) = height
                                \<and> int (snd (shape (annToMask c a))) = width) anns))"
proof (induction anns arbitrary: acc)
  case Nil
  then show ?case by simp
next
  case (Cons a anns)
  from Cons.prems obtain cid where cid: "m (ann_category_id a) = Some cid" by auto
  from Cons.prems have "\<forall>a \<in> set anns. m (ann_category_id a) \<noteq> None" by simp
  from Cons.IH[OF this] show ?case
    by (simp add: dict_get_def cid Let_def)
qed

lemma instance_loop_unmapped:
  "\<exists>a \<in> set anns. m (ann_category_id a) = None \<Longrightarrow>
     \<exists>k. instance_loop c m height width anns acc = Inl (KeyError k)
          \<and> m k = None \<and> k \<in> ann_category_id ` set anns"
proof (induction anns arbitrary: acc)
  case Nil
  then show ?case by simp
next
  case (Cons a anns)
  show ?case
  proof (cases "m (ann_category_id a)")
    case None
    then show ?thesis by (auto simp: dict_get_def)
  next
    case (Some cid)
    with Cons.prems have ex: "\<exists>a \<in> set anns. m (ann_category_id a) = None" by auto
    show ?thesis
      using Cons.IH[OF ex, of acc]
            Cons.IH[OF ex, of "acc @ [\<lparr>class_id = cid, mask_of = annToMask c a,
                                         instance_id = ann_id a\<rparr>]"]
      by (auto simp: dict_get_def Some Let_def)
  qed
qed

lemma panoptic_loop_mapped:
  "\<forall>s \<in> set segs. m (seg_category_id s) \<noteq> None \<Longrightarrow>
     panoptic_loop m seg_id_map segs acc =
       Inr (acc @ map (\<lambda>s. \<lparr>class_id = the (m (seg_category_id s)),
                             mask_of = segment_mask seg_id_map (seg_id s),
                             instance_id = seg_id s\<rparr>) segs)"
proof (induction segs arbitrary: acc)
  case Nil
  then show ?case by simp
next
  case (Cons s segs)
  from Cons.prems obtain cid where cid: "m (seg_category_id s) = Some cid" by auto
  from Cons.prems have "\<forall>s \<in> set segs. m (seg_category_id s) \<noteq> None" by simp
  from Cons.IH[OF this] show ?case
    by (simp add: dict_get_def cid)
qed


subsection \<open>The panoptic records\<close>

lemma shape_rgb_to_id: "shape (rgb_to_id color) = shape color"
  by (simp add: rgb_to_id_array_map array_map_def)

lemma rows_rgb_to_id: "length (rows (rgb_to_id color)) = length (rows color)"
  "i < length (rows color) \<Longrightarrow> length (rows (rgb_to_id color) ! i) = length (rows color ! i)"
  by (simp_all add: rgb_to_id_array_map array_map_def)

lemma pixel_segment_mask:
  "i < length (rows a) \<Longrightarrow> j < length (rows a ! i) \<Longrightarrow>
     pixel (segment_mask a sid) i j = (if sint (pixel a i j) = sid then 1 else 0)"
  by (simp add: segment_mask_def pixel_array_map)

lemma get_panoptic_gt_for_image_mapped:
  assumes "img_id_to_img image_id = Some img_info"
    and "img_id_to_ann image_id = Some ann"
    and "files (os_path_join panoptic_masks_dir (file_name ann)) = Some panoptic_rgb"
    and "\<forall>s \<in> set (segments_info ann). catid_to_classid (seg_category_id s) \<noteq> None"
  shows "get_panoptic_gt_for_image files image_id img_id_to_img img_id_to_ann catid_to_classid
           panoptic_masks_dir =
         Inr (map (\<lambda>s. \<lparr>class_id = the (catid_to_classid (seg_category_id s)),
                         mask_of = segment_mask (rgb_to_id panoptic_rgb) (seg_id s),
                         instance_id = seg_id s\<rparr>) (segments_info ann),
              shape panoptic_rgb)"
  unfolding get_panoptic_gt_for_image_def
  by (simp add: dict_get_def assms(1,2,3) Let_def panoptic_loop_mapped[OF assms(4)] shape_rgb_to_id)

lemma example_panoptic_result:
  "get_panoptic_gt_for_image example_files 42
       (fst (index_panoptic_structures example_panoptic_data))
       (snd (index_panoptic_structures example_panoptic_data))
       (build_category_id_mapping (categories example_panoptic_data)) ''panoptic_val2017''
     = Inr ([\<lparr>class_id = 0,
              mask_of = NDArray (4, 4) [[1, 1, 1, 1], [1, 1, 1, 1], [0, 0, 0, 0], [0, 0, 0, 0]],
              instance_id = 1000\<rparr>,
             \<lparr>class_id = 1,
              mask_of = NDArray (4, 4) [[0, 0, 0, 0], [0, 0, 0, 0], [1, 1, 1, 1], [1, 1, 1, 1]],
              instance_id = 2000\<rparr>], (4, 4))"
  by code_simp

lemma example_mask_counts:
  "pixel_count (NDArray (4, 4) [[1, 1, 1, 1], [1, 1, 1, 1], [0, 0, 0, 0], [0, 0, 0, 0]]) = 8"
  "pixel_count (NDArray (4, 4) [[0, 0, 0, 0], [0, 0, 0, 0], [1, 1, 1, 1], [1, 1, 1, 1]]) = 8"
  "array_map2 (+) (NDArray (4, 4) [[1, 1, 1, 1], [1, 1, 1, 1], [0, 0, 0, 0], [0, 0, 0, 0]])
                  (NDArray (4, 4) [[0, 0, 0, 0], [0, 0, 0, 0], [1, 1, 1, 1], [1, 1, 1, 1]])
     = (NDArray (4, 4) [[1, 1, 1, 1], [1, 1, 1, 1], [1, 1, 1, 1], [1, 1, 1, 1]] :: mask)"
  by code_simp+

text \<open>
  C5: for an image that is in both indexes, whose PNG file exists and whose segments all have
  a mapped category, the panoptic assembler returns one record for each segment, in the order
  of the segment list, with \<open>instance_id\<close> the segment id, \<open>class_id\<close> the value of the mapping
  at the segment's category, and as mask the pixel-wise test of the decoded segment-id map
  against the segment id, together with the shape of the decoded image; masks for different
  segment ids are 1 at no common pixel; and for the 4 by 4 image with segments 1000 (upper
  half) and 2000 (lower half) the two masks have 8 pixels each and add up to the all-one mask.
\<close>

theorem get_panoptic_gt_for_image_records:
  assumes "img_id_to_img image_id = Some img_info"
    and "img_id_to_ann image_id = Some ann"
    and "files (os_path_join panoptic_masks_dir (file_name ann)) = Some panoptic_rgb"
    and "\<forall>s \<in> set (segments_info ann). catid_to_classid (seg_category_id s) \<noteq> None"
  shows "get_panoptic_gt_for_image files image_id img_id_to_img img_id_to_ann catid_to_classid
           panoptic_masks_dir =
         Inr (map (\<lambda>s. \<lparr>class_id = the (catid_to_classid (seg_category_id s)),
                         mask_of = segment_mask (rgb_to_id panoptic_rgb) (seg_id s),
                         instance_id = seg_id s\<rparr>) (segments_info ann),
              shape panoptic_rgb)
       \<and> (\<forall>sid i j. i < length (rows panoptic_rgb) \<and> j < length (rows panoptic_rgb ! i) \<longrightarrow>
             pixel (segment_mask (rgb_to_id panoptic_rgb) sid) i j =
               (if sint (pixel (rgb_to_id panoptic_rgb) i j) = sid then 1 else 0))
       \<and> (\<forall>sid sid' i j. sid \<noteq> sid'
               \<and> i < length (rows panoptic_rgb) \<and> j < length (rows panoptic_rgb ! i) \<longrightarrow>
             \<not> (pixel (segment_mask (rgb_to_id panoptic_rgb) sid) i j = 1
                \<and> pixel (segment_mask (rgb_to_id panoptic_rgb) sid') i j = 1))
       \<and> get_panoptic_gt_for_image example_files 42
            (fst (index_panoptic_structures example_panoptic_data))
            (snd (index_panoptic_structures example_panoptic_data))
            (build_category_id_mapping (categories example_panoptic_data)) ''panoptic_val2017''
          = Inr ([\<lparr>class_id = 0,
                   mask_of = NDArray (4, 4) [[1, 1, 1, 1], [1, 1, 1, 1], [0, 0, 0, 0], [0, 0, 0, 0]],
                   instance_id = 1000\<rparr>,
                  \<lparr>class_id = 1,
                   mask_of = NDArray (4, 4) [[0, 0, 0, 0], [0, 0, 0, 0], [1, 1, 1, 1], [1, 1, 1, 1]],
                   instance_id = 2000\<rparr>], (4, 4))
       \<and> pixel_count (NDArray (4, 4) [[1, 1, 1, 1], [1, 1, 1, 1], [0, 0, 0, 0], [0, 0, 0, 0]]) = 8
       \<and> pixel_count (NDArray (4, 4) [[0, 0, 0, 0], [0, 0, 0, 0], [1, 1, 1, 1], [1, 1, 1, 1]]) = 8
       \<and> array_map2 (+) (NDArray (4, 4) [[1, 1, 1, 1], [1, 1, 1, 1], [0, 0, 0, 0], [0, 0, 0, 0]])
                         (NDArray (4, 4) [[0, 0, 0, 0], [0, 0, 0, 0], [1, 1, 1, 1], [1, 1, 1, 1]])
          = (NDArray (4, 4) [[1, 1, 1, 1], [1, 1, 1, 1], [1, 1, 1, 1], [1, 1, 1, 1]] :: mask)"
proof -
  have px: "pixel (segment_mask (rgb_to_id panoptic_rgb) sid) i j =
               (if sint (pixel (rgb_to_id panoptic_rgb) i j) = sid then 1 else 0)"
    if "i < length (rows panoptic_rgb) \<and> j < length (rows panoptic_rgb ! i)" for sid i j
    using that by (simp add: pixel_segment_mask rows_rgb_to_id)
  have excl: "\<not> (pixel (segment_mask (rgb_to_id panoptic_rgb) sid) i j = 1
                \<and> pixel (segment_mask (rgb_to_id panoptic_rgb) sid') i j = 1)"
    if "sid \<noteq> sid' \<and> i < length (rows panoptic_rgb) \<and> j < length (rows panoptic_rgb ! i)"
    for sid sid' i j
    using that px[of i j sid] px[of i j sid'] by (auto split: if_splits)
  have res: "get_panoptic_gt_for_image files image_id img_id_to_img img_id_to_ann catid_to_classid
           panoptic_masks_dir =
         Inr (map (\<lambda>s. \<lparr>class_id = the (catid_to_classid (seg_category_id s)),
                         mask_of = segment_mask (rgb_to_id panoptic_rgb) (seg_id s),
                         instance_id = seg_id s\<rparr>) (segments_info ann),
              shape panoptic_rgb)"
    using assms by (rule get_panoptic_gt_for_image_mapped)
  from res px excl example_panoptic_result example_mask_counts
  show ?thesis by blast
qed

theorem get_panoptic_gt_for_image_records_witness:
  "fst (index_panoptic_structures example_panoptic_data) 42
     = Some \<lparr>img_id = 42, img_width = 4, img_height = 4\<rparr>
   \<and> get_panoptic_gt_for_image example_files 42
        (fst (index_panoptic_structures example_panoptic_data))
        (snd (index_panoptic_structures example_panoptic_data))
        (build_category_id_mapping (categories example_panoptic_data)) ''panoptic_val2017''
      = Inr (map (\<lambda>s. \<lparr>class_id = the (build_category_id_mapping (categories example_panoptic_data)
                                          (seg_category_id s)),
                         mask_of = segment_mask (rgb_to_id example_png) (seg_id s),
                         instance_id = seg_id s\<rparr>)
               [\<lparr>seg_id = 1000, seg_category_id = 5\<rparr>, \<lparr>seg_id = 2000, seg_category_id = 18\<rparr>],
             (4, 4))
   \<and> \<not> (pixel (segment_mask (rgb_to_id example_png) 1000) 0 0 = 1
        \<and> pixel (segment_mask (rgb_to_id example_png) 2000) 0 0 = 1)"
proof -
  let ?ann = "\<lparr>pan_image_id = 42, file_name = ''000000000042.png'',
          segments_info = [\<lparr>seg_id = 1000, seg_category_id = 5\<rparr>,
                           \<lparr>seg_id = 2000, seg_category_id = 18\<rparr>]\<rparr>"
  have a: "fst (index_panoptic_structures example_panoptic_data) 42
     = Some \<lparr>img_id = 42, img_width = 4, img_height = 4\<rparr>"
    by code_simp
  have b: "snd (index_panoptic_structures example_panoptic_data) 42 = Some ?ann"
    by code_simp
  have c: "example_files (os_path_join ''panoptic_val2017'' (file_name ?ann)) = Some example_png"
    by code_simp
  have d: "\<forall>s \<in> set (segments_info ?ann).
      build_category_id_mapping (categories example_panoptic_data) (seg_category_id s) \<noteq> None"
    by code_simp
  note T = get_panoptic_gt_for_image_records[
      where img_id_to_img = "fst (index_panoptic_structures example_panoptic_data)"
        and img_id_to_ann = "snd (index_panoptic_structures example_panoptic_data)"
        and image_id = 42 and files = example_files and panoptic_masks_dir = "''panoptic_val2017''"
        and catid_to_classid = "build_category_id_mapping (categories example_panoptic_data)"
        and ann = ?ann and panoptic_rgb = example_png, OF a b c d]
  have e: "shape example_png = (4, 4)" by (simp add: example_png_def)
  have f: "(1000 :: int) \<noteq> 2000 \<and> 0 < length (rows example_png) \<and> 0 < length (rows example_png ! 0)"
    by (simp add: example_png_def)
  from T have "\<forall>sid sid' i j. sid \<noteq> sid'
               \<and> i < length (rows example_png) \<and> j < length (rows example_png ! i) \<longrightarrow>
             \<not> (pixel (segment_mask (rgb_to_id example_png) sid) i j = 1
                \<and> pixel (segment_mask (rgb_to_id example_png) sid') i j = 1)"
    by blast
  from this[rule_format, OF f]
  have g: "\<not> (pixel (segment_mask (rgb_to_id example_png) 1000) 0 0 = 1
        \<and> pixel (segment_mask (rgb_to_id example_png) 2000) 0 0 = 1)" .
  from T have "get_panoptic_gt_for_image example_files 42
        (fst (index_panoptic_structures example_panoptic_data))
        (snd (index_panoptic_structures example_panoptic_data))
        (build_category_id_mapping (categories example_panoptic_data)) ''panoptic_val2017''
      = Inr (map (\<lambda>s. \<lparr>class_id = the (build_category_id_mapping (categories example_panoptic_data)
                                          (seg_category_id s)),
                         mask_of = segment_mask (rgb_to_id example_png) (seg_id s),
                         instance_id = seg_id s\<rparr>)
               (segments_info ?ann), shape example_png)"
    by (rule conjunct1)
  then have h: "get_panoptic_gt_for_image example_files 42
        (fst (index_panoptic_structures example_panoptic_data))
        (snd (index_panoptic_structures example_panoptic_data))
        (build_category_id_mapping (categories example_panoptic_data)) ''panoptic_val2017''
      = Inr (map (\<lambda>s. \<lparr>class_id = the (build_category_id_mapping (categories example_panoptic_data)
                                          (seg_category_id s)),
                         mask_of = segment_mask (rgb_to_id example_png) (seg_id s),
                         instance_id = seg_id s\<rparr>)
               [\<lparr>seg_id = 1000, seg_category_id = 5\<rparr>, \<lparr>seg_id = 2000, seg_category_id = 18\<rparr>],
             (4, 4))"
    unfolding e by (simp only: segment_info.simps panoptic_annotation.simps)
  from a h g show ?thesis by (intro conjI)
qed

subsection \<open>The instance records\<close>

lemma length_filter_split:
  "length (filter P xs) + length (filter (\<lambda>x. \<not> P x) xs) = length xs"
  by (induction xs) auto

text \<open>
  C6: in the instance assembler, for an image that the container knows, a shape mismatch
  never raises: the call fails exactly when some annotation has an unmapped category.
  Otherwise it returns, in order, one record for each annotation whose decoded mask has the
  declared \<open>(height, width)\<close>, holding that mask as the decoder gave it, and no record for any
  other annotation: the list is shorter than the annotation list by the number of
  mismatching annotations.
\<close>

theorem get_instance_gt_for_image_shape_policy:
  assumes "imgs coco image_id = Some img_info"
  shows "(isl (get_instance_gt_for_image coco image_id catid_to_classid)
            \<longleftrightarrow> (\<exists>a \<in> set (image_anns coco image_id). catid_to_classid (ann_category_id a) = None))
       \<and> ((\<forall>a \<in> set (image_anns coco image_id). catid_to_classid (ann_category_id a) \<noteq> None) \<longrightarrow>
            (\<exists>instances.
               get_instance_gt_for_image coco image_id catid_to_classid = Inr instances
             \<and> instances =
                 map (\<lambda>a. \<lparr>class_id = the (catid_to_classid (ann_category_id a)),
                            mask_of = annToMask coco a, instance_id = ann_id a\<rparr>)
                   (filter (\<lambda>a. shape (annToMask coco a)
                                   = (nat (img_height img_info), nat (img_width img_info))
                                 \<and> 0 \<le> img_height img_info \<and> 0 \<le> img_width img_info)
                      (image_anns coco image_id))
             \<and> length instances
                 + length (filter (\<lambda>a. \<not> (shape (annToMask coco a)
                                   = (nat (img_height img_info), nat (img_width img_info))
                                 \<and> 0 \<le> img_height img_info \<and> 0 \<le> img_width img_info))
                      (image_anns coco image_id))
                 = length (image_anns coco image_id)))"
proof -
  let ?anns = "image_anns coco image_id"
  let ?h = "img_height img_info" and ?w = "img_width img_info"
  let ?ok = "\<lambda>a. shape (annToMask coco a) = (nat ?h, nat ?w) \<and> 0 \<le> ?h \<and> 0 \<le> ?w"
  have ok: "(int (fst (shape (annToMask coco a))) = ?h \<and> int (snd (shape (annToMask coco a))) = ?w)
          = ?ok a" for a
    by (cases "shape (annToMask coco a)") auto
  have run: "get_instance_gt_for_image coco image_id catid_to_classid =
      instance_loop coco catid_to_classid ?h ?w ?anns []"
    by (simp add: get_instance_gt_for_image_def dict_get_def assms)
  have mapped: "get_instance_gt_for_image coco image_id catid_to_classid =
      Inr (map (\<lambda>a. \<lparr>class_id = the (catid_to_classid (ann_category_id a)),
                      mask_of = annToMask coco a, instance_id = ann_id a\<rparr>)
             (filter ?ok ?anns))"
    if "\<forall>a \<in> set ?anns. catid_to_classid (ann_category_id a) \<noteq> None"
    unfolding run instance_loop_mapped[OF that] ok by simp
  have unmapped: "isl (get_instance_gt_for_image coco image_id catid_to_classid)"
    if "\<exists>a \<in> set ?anns. catid_to_classid (ann_category_id a) = None"
    using instance_loop_unmapped[OF that, of coco ?h ?w "[]"] unfolding run by auto
  have iff: "isl (get_instance_gt_for_image coco image_id catid_to_classid)
            \<longleftrightarrow> (\<exists>a \<in> set ?anns. catid_to_classid (ann_category_id a) = None)"
  proof
    assume l: "isl (get_instance_gt_for_image coco image_id catid_to_classid)"
    show "\<exists>a \<in> set ?anns. catid_to_classid (ann_category_id a) = None"
    proof (rule ccontr)
      assume "\<not> (\<exists>a \<in> set ?anns. catid_to_classid (ann_category_id a) = None)"
      then have "\<forall>a \<in> set ?anns. catid_to_classid (ann_category_id a) \<noteq> None" by simp
      from mapped[OF this] l show False by simp
    qed
  next
    assume "\<exists>a \<in> set ?anns. catid_to_classid (ann_category_id a) = None"
    then show "isl (get_instance_gt_for_image coco image_id catid_to_classid)" by (rule unmapped)
  qed
  have len: "length (map (\<lambda>a. \<lparr>class_id = the (catid_to_classid (ann_category_id a)),
                      mask_of = annToMask coco a, instance_id = ann_id a\<rparr>) (filter ?ok ?anns))
      + length (filter (\<lambda>a. \<not> ?ok a) ?anns) = length ?anns"
    unfolding length_map by (rule length_filter_split)
  from iff mapped len show ?thesis by blast
qed

theorem get_instance_gt_for_image_shape_policy_witness:
  "imgs example_coco 1 = Some \<lparr>img_id = 1, img_width = 2, img_height = 1\<rparr>
   \<and> \<not> isl (get_instance_gt_for_image example_coco 1 (build_category_id_mapping example_categories))
   \<and> get_instance_gt_for_image example_coco 1 (build_category_id_mapping example_categories)
       = Inr [\<lparr>class_id = 1, mask_of = NDArray (1, 2) [[1, 0]], instance_id = 10\<rparr>]
   \<and> length (image_anns example_coco 1) = 2"
proof -
  let ?m = "build_category_id_mapping example_categories"
  let ?info = "\<lparr>img_id = 1, img_width = 2, img_height = 1\<rparr>"
  have a: "imgs example_coco 1 = Some ?info" by code_simp
  have b: "\<forall>a \<in> set (image_anns example_coco 1). ?m (ann_category_id a) \<noteq> None" by code_simp
  have b': "\<not> (\<exists>a \<in> set (image_anns example_coco 1). ?m (ann_category_id a) = None)"
    using b by simp
  note T = get_instance_gt_for_image_shape_policy[
      where coco = example_coco and image_id = 1 and img_info = ?info and catid_to_classid = ?m,
      OF a]
  from T b' have c: "\<not> isl (get_instance_gt_for_image example_coco 1 ?m)" by blast
  have d: "map (\<lambda>a. \<lparr>class_id = the (?m (ann_category_id a)),
                      mask_of = annToMask example_coco a, instance_id = ann_id a\<rparr>)
             (filter (\<lambda>a. shape (annToMask example_coco a)
                             = (nat (img_height ?info), nat (img_width ?info))
                           \<and> 0 \<le> img_height ?info \<and> 0 \<le> img_width ?info)
                (image_anns example_coco 1))
         = [\<lparr>class_id = 1, mask_of = NDArray (1, 2) [[1, 0]], instance_id = 10\<rparr>]"
    by code_simp
  from T b have "get_instance_gt_for_image example_coco 1 ?m =
      Inr (map (\<lambda>a. \<lparr>class_id = the (?m (ann_category_id a)),
                      mask_of = annToMask example_coco a, instance_id = ann_id a\<rparr>)
             (filter (\<lambda>a. shape (annToMask example_coco a)
                             = (nat (img_height ?info), nat (img_width ?info))
                           \<and> 0 \<le> img_height ?info \<and> 0 \<le> img_width ?info)
                (image_anns example_coco 1)))"
    by blast
  then have e: "get_instance_gt_for_image example_coco 1 ?m
       = Inr [\<lparr>class_id = 1, mask_of = NDArray (1, 2) [[1, 0]], instance_id = 10\<rparr>]"
    unfolding d .
  have f: "length (image_anns example_coco 1) = 2" by code_simp
  from a c e f show ?thesis by (intro conjI)
qed

subsection \<open>Missing images and unknown categories\<close>

lemma dict_of_None_iff: "dict_of kvs k = None \<longleftrightarrow> k \<notin> fst ` set kvs"
  by (simp add: dict_of_map_of map_of_eq_None_iff)

text \<open>
  C9: a request for an image id that is missing from the image index or from the annotation
  index fails with \<^verbatim>\<open>KeyError\<close> for that id and returns no list; an id is missing from an
  index exactly when no image, respectively no annotation, of the container has it. For an
  id present in both, the two lookups give the entries, and when the PNG file exists and each
  segment has a mapped category the call returns its records.
\<close>

theorem get_panoptic_gt_for_image_not_found:
  "((img_id_to_img image_id = None \<or> img_id_to_ann image_id = None) \<longrightarrow>
      get_panoptic_gt_for_image files image_id img_id_to_img img_id_to_ann catid_to_classid
        panoptic_masks_dir = Inl (KeyError image_id))
   \<and> (fst (index_panoptic_structures panoptic_data) image_id = None
        \<longleftrightarrow> image_id \<notin> img_id ` set (images panoptic_data))
   \<and> (snd (index_panoptic_structures panoptic_data) image_id = None
        \<longleftrightarrow> image_id \<notin> pan_image_id ` set (annotations panoptic_data))
   \<and> (\<forall>img_info ann. img_id_to_img image_id = Some img_info \<and> img_id_to_ann image_id = Some ann \<longrightarrow>
         dict_get img_id_to_img image_id = Inr img_info
       \<and> dict_get img_id_to_ann image_id = Inr ann
       \<and> (files (os_path_join panoptic_masks_dir (file_name ann)) \<noteq> None
            \<and> (\<forall>s \<in> set (segments_info ann). catid_to_classid (seg_category_id s) \<noteq> None) \<longrightarrow>
          (\<exists>panoptic_instances hw.
             get_panoptic_gt_for_image files image_id img_id_to_img img_id_to_ann catid_to_classid
               panoptic_masks_dir = Inr (panoptic_instances, hw)
           \<and> length panoptic_instances = length (segments_info ann))))"
proof (intro conjI allI impI)
  assume "img_id_to_img image_id = None \<or> img_id_to_ann image_id = None"
  then show "get_panoptic_gt_for_image files image_id img_id_to_img img_id_to_ann catid_to_classid
        panoptic_masks_dir = Inl (KeyError image_id)"
    by (auto simp: get_panoptic_gt_for_image_def dict_get_def split: option.splits)
next
  show "fst (index_panoptic_structures panoptic_data) image_id = None
        \<longleftrightarrow> image_id \<notin> img_id ` set (images panoptic_data)"
    by (simp add: index_panoptic_structures_def Let_def dict_of_None_iff image_image)
  show "snd (index_panoptic_structures panoptic_data) image_id = None
        \<longleftrightarrow> image_id \<notin> pan_image_id ` set (annotations panoptic_data)"
    by (simp add: index_panoptic_structures_def Let_def dict_of_None_iff image_image)
next
  fix img_info ann
  assume "img_id_to_img image_id = Some img_info \<and> img_id_to_ann image_id = Some ann"
  then show "dict_get img_id_to_img image_id = Inr img_info"
    and "dict_get img_id_to_ann image_id = Inr ann"
    by (simp_all add: dict_get_def)
next
  fix img_info ann
  assume p: "img_id_to_img image_id = Some img_info \<and> img_id_to_ann image_id = Some ann"
    and q: "files (os_path_join panoptic_masks_dir (file_name ann)) \<noteq> None
            \<and> (\<forall>s \<in> set (segments_info ann). catid_to_classid (seg_category_id s) \<noteq> None)"
  from q obtain rgb where rgb: "files (os_path_join panoptic_masks_dir (file_name ann)) = Some rgb"
    by auto
  have "get_panoptic_gt_for_image files image_id img_id_to_img img_id_to_ann catid_to_classid
           panoptic_masks_dir =
         Inr (map (\<lambda>s. \<lparr>class_id = the (catid_to_classid (seg_category_id s)),
                         mask_of = segment_mask (rgb_to_id rgb) (seg_id s),
                         instance_id = seg_id s\<rparr>) (segments_info ann),
              shape rgb)"
    using p[THEN conjunct1] p[THEN conjunct2] rgb q[THEN conjunct2]
    by (rule get_panoptic_gt_for_image_mapped)
  then show "\<exists>panoptic_instances hw.
             get_panoptic_gt_for_image files image_id img_id_to_img img_id_to_ann catid_to_classid
               panoptic_masks_dir = Inr (panoptic_instances, hw)
           \<and> length panoptic_instances = length (segments_info ann)"
    by simp
qed

theorem get_panoptic_gt_for_image_not_found_witness:
  "snd (index_panoptic_structures example_panoptic_data) 7 = None
   \<and> get_panoptic_gt_for_image example_files 7
        (fst (index_panoptic_structures example_panoptic_data))
        (snd (index_panoptic_structures example_panoptic_data))
        (build_category_id_mapping (categories example_panoptic_data)) ''panoptic_val2017''
      = Inl (KeyError 7)
   \<and> (\<exists>panoptic_instances hw.
         get_panoptic_gt_for_image example_files 42
           (fst (index_panoptic_structures example_panoptic_data))
           (snd (index_panoptic_structures example_panoptic_data))
           (build_category_id_mapping (categories example_panoptic_data)) ''panoptic_val2017''
         = Inr (panoptic_instances, hw) \<and> length panoptic_instances = 2)"
proof -
  let ?i2i = "fst (index_panoptic_structures example_panoptic_data)"
  let ?i2a = "snd (index_panoptic_structures example_panoptic_data)"
  let ?m = "build_category_id_mapping (categories example_panoptic_data)"
  let ?ann = "\<lparr>pan_image_id = 42, file_name = ''000000000042.png'',
          segments_info = [\<lparr>seg_id = 1000, seg_category_id = 5\<rparr>,
                           \<lparr>seg_id = 2000, seg_category_id = 18\<rparr>]\<rparr>"
  let ?info = "\<lparr>img_id = 42, img_width = 4, img_height = 4\<rparr>"
  have n: "?i2a 7 = None" by code_simp
  note T7 = get_panoptic_gt_for_image_not_found[
      where img_id_to_img = ?i2i and img_id_to_ann = ?i2a and image_id = 7
        and files = example_files and catid_to_classid = ?m
        and panoptic_masks_dir = "''panoptic_val2017''"]
  from T7 n have a: "get_panoptic_gt_for_image example_files 7 ?i2i ?i2a ?m ''panoptic_val2017''
      = Inl (KeyError 7)"
    by blast
  have p: "?i2i 42 = Some ?info \<and> ?i2a 42 = Some ?ann" by code_simp
  have q: "example_files (os_path_join ''panoptic_val2017'' (file_name ?ann)) \<noteq> None
            \<and> (\<forall>s \<in> set (segments_info ?ann). ?m (seg_category_id s) \<noteq> None)"
    by code_simp
  note T42 = get_panoptic_gt_for_image_not_found[
      where img_id_to_img = ?i2i and img_id_to_ann = ?i2a and image_id = 42
        and files = example_files and catid_to_classid = ?m
        and panoptic_masks_dir = "''panoptic_val2017''"]
  from T42 have "\<forall>img_info ann. ?i2i 42 = Some img_info \<and> ?i2a 42 = Some ann \<longrightarrow>
         dict_get ?i2i 42 = Inr img_info
       \<and> dict_get ?i2a 42 = Inr ann
       \<and> (example_files (os_path_join ''panoptic_val2017'' (file_name ann)) \<noteq> None
            \<and> (\<forall>s \<in> set (segments_info ann). ?m (seg_category_id s) \<noteq> None) \<longrightarrow>
          (\<exists>panoptic_instances hw.
             get_panoptic_gt_for_image example_files 42 ?i2i ?i2a ?m ''panoptic_val2017''
               = Inr (panoptic_instances, hw)
           \<and> length panoptic_instances = length (segments_info ann)))"
    by blast
  from this[rule_format, OF p] q
  have "\<exists>panoptic_instances hw.
             get_panoptic_gt_for_image example_files 42 ?i2i ?i2a ?m ''panoptic_val2017''
               = Inr (panoptic_instances, hw)
           \<and> length panoptic_instances = length (segments_info ?ann)"
    by blast
  then have b: "\<exists>panoptic_instances hw.
             get_panoptic_gt_for_image example_files 42 ?i2i ?i2a ?m ''panoptic_val2017''
               = Inr (panoptic_instances, hw)
           \<and> length panoptic_instances = 2"
    by (simp add: numeral_2_eq_2)
  from n a b show ?thesis by (intro conjI)
qed






subsection \<open>Invariants of the records\<close>












end
